theory Spec2Isabelle
  imports Main "HOL-Library.Word"
begin

section \<open>The bundle release pipeline of the command-line client\<close>

text \<open>
  A shallow embedding of \<^verbatim>\<open>src/bundle/upload.ts\<close>: the function
  \<^verbatim>\<open>uploadBundle\<close> and its helper \<^verbatim>\<open>checkNativeCode\<close>.
  The pipeline is one straight-line asynchronous function.  Every call it makes to a
  collaborator (backend, file system, prompt, telemetry) is recorded as an event, in
  program order; every \<^verbatim>\<open>program.error('')\<close> and every exception that
  leaves the function is a value of type \<open>cause\<close>.
\<close>

subsection \<open>JavaScript values\<close>

type_synonym bytes = "8 word list"

text \<open>
  An optional string (\<^verbatim>\<open>string | undefined\<close>).  The empty string is falsy, so
  \<^verbatim>\<open>a || b\<close> takes \<open>b\<close> for it as well.
\<close>

fun truthy :: "string option \<Rightarrow> bool" where
  "truthy None = False"
| "truthy (Some s) = (s \<noteq> [])"

definition js_or :: "string option \<Rightarrow> string option \<Rightarrow> string option" where
  "js_or a b = (if truthy a then a else b)"

fun or_default :: "string option \<Rightarrow> string \<Rightarrow> string" where
  "or_default None d = d"
| "or_default (Some s) d = (if s \<noteq> [] then s else d)"

fun startsWith :: "string \<Rightarrow> string \<Rightarrow> bool" where
  "startsWith s [] = True"
| "startsWith [] (p # ps) = False"
| "startsWith (c # cs) (p # ps) = (c = p \<and> startsWith cs ps)"

subsection \<open>The storage object key (lines 111-113)\<close>

text \<open>
  \<^verbatim>\<open>bundle.replace(/[^a-zA-Z0-9-_.!*'()]/g, '__')\<close>: the negated character class
  holds the ranges \<open>a-z\<close>, \<open>A-Z\<close>, \<open>0-9\<close> and the eight literal characters
  \<open>- _ . ! * ' ( )\<close>.  The regular expression has no \<open>u\<close> flag: it works on one
  element of the string at a time.
\<close>

definition inClass :: "char \<Rightarrow> bool" where
  "inClass c =
     (let n = (of_char c :: nat) in
      (97 \<le> n \<and> n \<le> 122) \<or> (65 \<le> n \<and> n \<le> 90) \<or> (48 \<le> n \<and> n \<le> 57) \<or>
      c \<in> set [CHR ''-'', CHR ''_'', CHR ''.'', CHR ''!'', CHR ''*'', CHR 0x27, CHR ''('', CHR '')''])"

fun replaceAll :: "string \<Rightarrow> string" where
  "replaceAll [] = []"
| "replaceAll (c # cs) = (if inClass c then c # replaceAll cs else ''__'' @ replaceAll cs)"

definition safeBundle :: "string \<Rightarrow> string" where
  "safeBundle bundle = replaceAll bundle"

definition fileName :: "string \<Rightarrow> string" where
  "fileName bundle = safeBundle bundle @ ''.zip''"

subsection \<open>Events, causes of an abort, runs\<close>

datatype provider = External | R2Direct | R2

record versionData =
  bucket_id :: "string option"
  user_id :: string
  name :: string
  app_id :: string
  session_key :: "string option"
  external_url :: "string option"
  storage_provider :: provider
  checksum :: string
  native_files_sha256 :: "string list"

text \<open>
  One event per call to a collaborator, with the arguments a claim may speak about.
  \<open>UpdateOrCreateVersion\<close> also carries the error the backend answered with
  (\<open>None\<close>: the write went through).  Of the console output only that of
  \<^verbatim>\<open>checkNativeCode\<close> is kept (\<open>LogWarn\<close>, \<open>LogError\<close>); elsewhere the
  message printed before \<^verbatim>\<open>program.error('')\<close> is identified by the cause.
\<close>

datatype event =
    CheckLatest
  | GetConfig
  | VerifyUser
  | CheckPlanValid
  | CheckAppExistsAndHasPermissionErr
  | Rpc string
  | FindAllNativeCode
  | SelectChannel string string
  | LogWarn string
  | LogError string
  | ZipFolder string
  | GetChecksum bytes
  | Confirm
  | SnagPublish string
  | ReadFileSync string
  | EncryptSource bytes string
  | UpdateOrCreateVersion versionData "string option"
  | UploadUrl string string
  | AxiosPut string bytes string
  | UpdateOrCreateChannel string string string nat

datatype cause =
    InvalidBundleName
  | MissingApiKey
  | MissingArgument
  | PathDoesNotExist
  | VerifyUserFailed
  | PlanNotValid
  | NoAppPermission
  | BundleAlreadyExists
  | AppNotFound
  | VersionAlreadyExists
  | InvalidVersion
  | NativeFilesChanged
  | MissingPublicKeyCI
  | MissingPublicKeyRefused
  | ReadFileError string
  | ExternalNotHttps
  | CannotAddBundle
  | CannotGetUploadUrl
  | TransferFailed
  | CannotUpdateBundle
  | CannotSetChannel
  | CannotSetBundle

text \<open>
  \<open>InvalidVersion\<close> (the \<^verbatim>\<open>TypeError\<close> of \<^verbatim>\<open>semver.major\<close>),
  \<open>ReadFileError\<close> (the exception of \<^verbatim>\<open>readFileSync\<close>) and
  \<open>TransferFailed\<close> (the rejection of \<^verbatim>\<open>axios\<close>) are exceptions: they leave
  \<^verbatim>\<open>uploadBundle\<close> and \<^verbatim>\<open>uploadCommand\<close> turns them into
  \<^verbatim>\<open>program.error('')\<close>.  All the others end the process where they arise.
\<close>

type_synonym 'a run = "event list \<times> (cause + 'a)"

definition ret :: "'a \<Rightarrow> 'a run" where
  "ret x = ([], Inr x)"

definition abort :: "cause \<Rightarrow> 'a run" where
  "abort c = ([], Inl c)"

definition after :: "event \<Rightarrow> 'a run \<Rightarrow> 'a run" where
  "after e m = (e # fst m, snd m)"

definition bind_run :: "'a run \<Rightarrow> ('a \<Rightarrow> 'b run) \<Rightarrow> 'b run" where
  "bind_run m f =
     (case snd m of
        Inl c \<Rightarrow> (fst m, Inl c)
      | Inr x \<Rightarrow> (fst m @ fst (f x), snd (f x)))"

subsection \<open>Imported helpers and answers of the backend\<close>

text \<open>
  The helpers that \<^verbatim>\<open>upload.ts\<close> imports from \<^verbatim>\<open>../utils\<close>,
  \<^verbatim>\<open>../api/crypto\<close> and from packages are parameters of the model:
  \<open>regexSemver\<close> is \<^verbatim>\<open>regexSemver.test\<close>, \<open>semverMajor\<close> is
  \<^verbatim>\<open>semver.major\<close> (\<open>None\<close> where it throws), \<open>getChecksum\<close> is
  \<^verbatim>\<open>getChecksum(_, 'crc32')\<close>, and \<open>encryptSource\<close> returns the pair
  \<^verbatim>\<open>(ivSessionKey, encryptedData)\<close>.
\<close>

record lib =
  regexSemver :: "string \<Rightarrow> bool"
  semverMajor :: "string \<Rightarrow> nat option"
  getChecksum :: "bytes \<Rightarrow> string"
  encryptSource :: "bytes \<Rightarrow> string \<Rightarrow> string \<times> bytes"
  baseKeyPub :: string
  defaulPublicKey :: string

record NativeFile =
  path :: string
  hash :: string

text \<open>The answer of \<^verbatim>\<open>.rpc(...).single()\<close> and of the channel query.\<close>

record 'a response =
  data :: "'a option"
  error :: "string option"

record channelVersion =
  version_name :: string
  version_native_files_sha256 :: "string list option"

subsection \<open>The native-code check (lines 304-368)\<close>

definition changedMsg :: "string \<Rightarrow> string" where
  "changedMsg p = ''Native file '' @ p @ '' has changed''"

definition someChangedMsg :: string where
  "someChangedMsg = ''Some native file have changed, cannot upload new version!''"

definition noChannelMsg :: string where
  "noChannelMsg = ''Cannot get native files hashes from previous version, channel does not yet exist''"

definition majorMsg :: string where
  "majorMsg = ''Uploading a new major version, skipping native check''"

definition noHashesMsg :: string where
  "noHashesMsg = ''Cannot get native files hashes from previous version, skipping check for modified native files''"

text \<open>
  The \<^verbatim>\<open>for ... of\<close> loop of lines 352-359; \<open>returnVal\<close> is threaded through.
  \<^verbatim>\<open>Array.prototype.find\<close> answers \<^verbatim>\<open>undefined\<close> when no element
  satisfies the test, as \<^const>\<open>List.find\<close> answers \<open>None\<close>.
\<close>

fun nativeLoop :: "string list \<Rightarrow> NativeFile list \<Rightarrow> bool \<Rightarrow> event list \<times> bool" where
  "nativeLoop remote [] returnVal = ([], returnVal)"
| "nativeLoop remote (nativeLocalHash # rest) returnVal =
     (if List.find (\<lambda>item. item = hash nativeLocalHash) remote = None
      then (LogError (changedMsg (path nativeLocalHash)) # fst (nativeLoop remote rest False),
            snd (nativeLoop remote rest False))
      else nativeLoop remote rest returnVal)"

definition checkNativeCode ::
  "lib \<Rightarrow> NativeFile list \<Rightarrow> channelVersion response \<Rightarrow> string \<Rightarrow> string \<Rightarrow> string
     \<Rightarrow> (bool \<times> string list) run" where
  "checkNativeCode L nativeCodeLocal channelAnswer channel appId bundle =
     after FindAllNativeCode
     (let hashes = map hash nativeCodeLocal in
      after (SelectChannel channel appId)
      (case (error channelAnswer, data channelAnswer) of
         (Some e, _) \<Rightarrow> after (LogWarn noChannelMsg) (ret (True, hashes))
       | (None, None) \<Rightarrow> after (LogWarn noChannelMsg) (ret (True, hashes))
       | (None, Some v) \<Rightarrow>
          (case semverMajor L bundle of
             None \<Rightarrow> abort InvalidVersion
           | Some target \<Rightarrow>
              (case semverMajor L (version_name v) of
                 None \<Rightarrow> abort InvalidVersion
               | Some bound \<Rightarrow>
                  if target > bound then after (LogWarn majorMsg) (ret (True, hashes))
                  else
                    (case version_native_files_sha256 v of
                       None \<Rightarrow> after (LogWarn noHashesMsg) (ret (True, hashes))
                     | Some nativeFilesRemoteHashes \<Rightarrow>
                        (let loop = nativeLoop nativeFilesRemoteHashes nativeCodeLocal True;
                             returnVal = snd loop
                         in (fst loop @ (if \<not> returnVal then [LogError someChangedMsg] else []),
                             Inr (returnVal, hashes))))))))"

subsection \<open>Options and the world of one run\<close>

text \<open>
  \<^verbatim>\<open>options.key\<close> is \<^verbatim>\<open>boolean | string\<close>; \<^verbatim>\<open>p.confirm\<close>
  answers a boolean, or a symbol when the prompt is cancelled, and a symbol is truthy.
\<close>

datatype keyOption = KeyFlag bool | KeyPath string

datatype confirmAnswer = Yes | No | Cancelled

datatype node = File string | Directory

datatype finished = ProcessExit | ReturnTrue

record Options =
  opt_apikey :: "string option"
  opt_bundle :: "string option"
  opt_path :: "string option"
  opt_channel :: "string option"
  opt_displayIvSession :: bool
  opt_external :: "string option"
  opt_key :: "keyOption option"

text \<open>
  Everything outside \<^verbatim>\<open>upload.ts\<close> that one run reads: the local machine
  (saved key, project configuration, the generated identifier, the file system, whether
  the run is in CI, the answer to the prompt, the archive of a folder, the native files
  with their hashes) and the answer of the backend to each call, in the order of the
  calls.  \<open>verifiedUser\<close>, \<open>planValid\<close> and \<open>appPermitted\<close> say whether
  \<^verbatim>\<open>verifyUser\<close>, \<^verbatim>\<open>checkPlanValid\<close> and
  \<^verbatim>\<open>checkAppExistsAndHasPermissionErr\<close> let the run go on; telemetry
  (\<^verbatim>\<open>snag.publish\<close>) is taken not to fail.
\<close>

record world =
  savedKey :: "string option"
  configAppId :: "string option"
  configVersion :: "string option"
  configWebDir :: "string option"
  uuid :: string
  fs :: "string \<Rightarrow> node option"
  isCI :: bool
  confirmed :: confirmAnswer
  zipFolder :: "string \<Rightarrow> bytes"
  nativeCodeLocal :: "NativeFile list"
  verifiedUser :: "string option"
  planValid :: bool
  appPermitted :: bool
  versionExist :: "bool response"
  app :: "bool response"
  appVersion :: "bool response"
  channelAnswer :: "channelVersion response"
  dbError :: "string option"
  url :: "string option"
  putOk :: bool
  dbError2 :: "string option"
  versionId :: "nat option"
  dbError3 :: "string option"

definition existsSync :: "world \<Rightarrow> string \<Rightarrow> bool" where
  "existsSync W p = (fs W p \<noteq> None)"

definition str :: "string option \<Rightarrow> string" where
  "str x = or_default x []"

fun keyTruthy :: "keyOption \<Rightarrow> bool" where
  "keyTruthy (KeyFlag b) = b"
| "keyTruthy (KeyPath s) = (s \<noteq> [])"

fun confirmTruthy :: "confirmAnswer \<Rightarrow> bool" where
  "confirmTruthy Yes = True"
| "confirmTruthy No = False"
| "confirmTruthy Cancelled = True"

subsection \<open>Resolving the arguments (lines 36-68)\<close>

definition apikeyOf :: "world \<Rightarrow> Options \<Rightarrow> string option" where
  "apikeyOf W options = js_or (opt_apikey options) (savedKey W)"

definition channelOf :: "Options \<Rightarrow> string" where
  "channelOf options = or_default (opt_channel options) ''dev''"

definition appidOf :: "world \<Rightarrow> string option \<Rightarrow> string option" where
  "appidOf W appid = js_or appid (configAppId W)"

definition bundleOf :: "world \<Rightarrow> Options \<Rightarrow> string" where
  "bundleOf W options =
     or_default (js_or (opt_bundle options) (configVersion W)) (''0.0.1-beta.'' @ uuid W)"

definition pathOf :: "world \<Rightarrow> Options \<Rightarrow> string option" where
  "pathOf W options = js_or (opt_path options) (configWebDir W)"

definition validateArgs ::
  "lib \<Rightarrow> world \<Rightarrow> string option \<Rightarrow> Options \<Rightarrow> (string \<times> string \<times> string) run" where
  "validateArgs L W appid0 options =
     after CheckLatest
     (let apikey = apikeyOf W options in
      after GetConfig
      (let appid = appidOf W appid0;
           bundle = bundleOf W options
       in if \<not> regexSemver L bundle then abort InvalidBundleName
          else
            (let path = pathOf W options
             in if \<not> truthy apikey then abort MissingApiKey
                else if \<not> truthy appid \<or> bundle = [] \<or> \<not> truthy path then abort MissingArgument
                else if \<not> existsSync W (str path) then abort PathDoesNotExist
                else ret (str apikey, str appid, str path))))"

subsection \<open>Credentials, plan, permission and the existence gates (lines 71-110)\<close>

definition checkAccess :: "world \<Rightarrow> string run" where
  "checkAccess W =
     after VerifyUser
     (case verifiedUser W of
        None \<Rightarrow> abort VerifyUserFailed
      | Some userId \<Rightarrow>
         after CheckPlanValid
         (if \<not> planValid W then abort PlanNotValid
          else
            after CheckAppExistsAndHasPermissionErr
            (if \<not> appPermitted W then abort NoAppPermission
             else
               after (Rpc ''exist_app_versions'')
               (if data (versionExist W) = Some True \<or> error (versionExist W) \<noteq> None
                then abort BundleAlreadyExists
                else
                  after (Rpc ''is_trial'')
                  (after (Rpc ''exist_app'')
                   (if data (app W) \<noteq> Some True \<or> error (app W) \<noteq> None
                    then abort AppNotFound
                    else
                      after (Rpc ''exist_app_versions'')
                      (if data (appVersion W) = Some True \<or> error (appVersion W) \<noteq> None
                       then abort VersionAlreadyExists
                       else ret userId)))))))"

subsection \<open>Archive, checksum and encryption (lines 119-199)\<close>

definition alertMb :: nat where
  "alertMb = 20"

definition keyOf :: "Options \<Rightarrow> keyOption" where
  "keyOf options = (case opt_key options of None \<Rightarrow> KeyFlag False | Some k \<Rightarrow> k)"

fun publicKeyOf :: "lib \<Rightarrow> keyOption \<Rightarrow> string" where
  "publicKeyOf L (KeyPath s) = s"
| "publicKeyOf L (KeyFlag b) = baseKeyPub L"

text \<open>
  Lines 131-168.  (The local variables \<^verbatim>\<open>path\<close> and
  \<^verbatim>\<open>checksum\<close> of the source are \<open>srcPath\<close> and \<open>crc\<close> here, the
  plain names being fields of records.)  The first argument of \<open>bind_run\<close> is the \<^verbatim>\<open>if\<close> of lines
  134-145 and leaves \<^verbatim>\<open>keyData\<close>; line 158 assigns \<^verbatim>\<open>keyData\<close> again,
  from the file that line 157 reads.
\<close>

definition encrypt :: "lib \<Rightarrow> world \<Rightarrow> Options \<Rightarrow> bytes \<Rightarrow> (string option \<times> bytes) run" where
  "encrypt L W options zipped =
     (let publicKey = publicKeyOf L (keyOf options) in
      bind_run
        (if \<not> existsSync W publicKey then
           (if isCI W then abort MissingPublicKeyCI
            else
              after Confirm
              (if \<not> confirmTruthy (confirmed W) then abort MissingPublicKeyRefused
               else ret (defaulPublicKey L)))
         else ret [])
        (\<lambda>keyData.
           after (SnagPublish ''App encryption'')
           (after (ReadFileSync publicKey)
            (case fs W publicKey of
               Some (File keyFile) \<Rightarrow>
                 (let keyData = keyFile;
                      res = encryptSource L zipped keyData
                  in after (EncryptSource zipped keyData) (ret (Some (fst res), snd res)))
             | _ \<Rightarrow> abort (ReadFileError publicKey)))))"

definition buildArtifact ::
  "lib \<Rightarrow> world \<Rightarrow> Options \<Rightarrow> string \<Rightarrow> (string option \<times> string \<times> bytes option) run" where
  "buildArtifact L W options srcPath =
     (let external = opt_external options in
      if \<not> truthy external then
        after (ZipFolder srcPath)
        (let zipped = zipFolder W srcPath in
         after (GetChecksum zipped)
         (let crc = getChecksum L zipped in
          bind_run
            (if keyTruthy (keyOf options) \<or> existsSync W (baseKeyPub L)
             then encrypt L W options zipped
             else ret (None, zipped))
            (\<lambda>(sessionKey, zipped).
               if length zipped div 1024 div 1024 > alertMb
               then after (SnagPublish ''App Too Large'') (ret (sessionKey, crc, Some zipped))
               else ret (sessionKey, crc, Some zipped))))
      else if truthy external \<and> \<not> startsWith (str external) ''https://''
      then abort ExternalNotHttps
      else after (SnagPublish ''App external'') (ret (None, [], None)))"

subsection \<open>Version record and transfer (lines 200-242)\<close>

definition newVersion ::
  "Options \<Rightarrow> string \<Rightarrow> string \<Rightarrow> string \<Rightarrow> string option \<Rightarrow> string \<Rightarrow> string list
     \<Rightarrow> versionData" where
  "newVersion options userId bundle appid sessionKey crc hashes =
     (let external = opt_external options in
      \<lparr> bucket_id = (if truthy external then None else Some (fileName bundle)),
        user_id = userId,
        name = bundle,
        app_id = appid,
        session_key = sessionKey,
        external_url = external,
        storage_provider = (if truthy external then External else R2Direct),
        checksum = crc,
        native_files_sha256 = hashes \<rparr>)"

definition transfer :: "world \<Rightarrow> versionData \<Rightarrow> string \<Rightarrow> string \<Rightarrow> bytes \<Rightarrow> string \<Rightarrow> unit run" where
  "transfer W versionData appid bundle zipped crc =
     after (UploadUrl appid (fileName bundle))
     (if \<not> truthy (url W) then abort CannotGetUploadUrl
      else
        after (AxiosPut (str (url W)) zipped crc)
        (if \<not> putOk W then abort TransferFailed
         else
           after (UpdateOrCreateVersion (versionData\<lparr>storage_provider := R2\<rparr>) (dbError2 W))
           (if dbError2 W \<noteq> None then abort CannotUpdateBundle else ret ())))"

definition registerVersion ::
  "world \<Rightarrow> Options \<Rightarrow> string \<Rightarrow> string \<Rightarrow> string \<Rightarrow> string option \<Rightarrow> string \<Rightarrow> string list
     \<Rightarrow> bytes option \<Rightarrow> unit run" where
  "registerVersion W options userId bundle appid sessionKey crc hashes zipped =
     (let versionData = newVersion options userId bundle appid sessionKey crc hashes in
      after (UpdateOrCreateVersion versionData (dbError W))
      (if dbError W \<noteq> None then abort CannotAddBundle
       else
         (case zipped of
            Some buffer \<Rightarrow>
              if \<not> truthy (opt_external options)
              then transfer W versionData appid bundle buffer crc
              else ret ()
          | None \<Rightarrow> ret ())))"

subsection \<open>Channel binding (lines 243-282)\<close>

definition bindChannel :: "world \<Rightarrow> string \<Rightarrow> string \<Rightarrow> string \<Rightarrow> bool \<Rightarrow> finished run" where
  "bindChannel W channel appid userId shouldExit =
     after (Rpc ''get_app_versions'')
     (case versionId W of
        None \<Rightarrow> abort CannotSetBundle
      | Some v \<Rightarrow>
         if v = 0 then abort CannotSetBundle
         else
           after (UpdateOrCreateChannel channel appid userId v)
           (if dbError3 W \<noteq> None then abort CannotSetChannel
            else
              after (SnagPublish ''App Uploaded'')
              (ret (if shouldExit then ProcessExit else ReturnTrue))))"

subsection \<open>The pipeline (lines 35-282)\<close>

definition uploadBundle ::
  "lib \<Rightarrow> world \<Rightarrow> string option \<Rightarrow> Options \<Rightarrow> bool \<Rightarrow> finished run" where
  "uploadBundle L W appid0 options shouldExit =
     bind_run (validateArgs L W appid0 options) (\<lambda>(apikey, appid, srcPath).
     let bundle = bundleOf W options;
         channel = channelOf options
     in
     bind_run (checkAccess W) (\<lambda>userId.
     bind_run (checkNativeCode L (nativeCodeLocal W) (channelAnswer W) channel appid bundle)
       (\<lambda>(nativeFilesNotChanged, hashes).
     if \<not> nativeFilesNotChanged then abort NativeFilesChanged
     else
     bind_run (buildArtifact L W options srcPath) (\<lambda>(sessionKey, crc, zipped).
     bind_run (registerVersion W options userId bundle appid sessionKey crc hashes zipped)
       (\<lambda>_.
     bindChannel W channel appid userId shouldExit)))))"

subsection \<open>The version rows of the backend\<close>

text \<open>
  Modelled from the spec: \<^verbatim>\<open>updateOrCreateVersion\<close> is imported from
  \<^verbatim>\<open>../utils\<close>, which is not among the source files.  The specification has it
  upsert the BundleVersion row whose identity is \<open>(app_id, name)\<close>; a call that is
  answered with an error writes nothing.  No other call of the pipeline writes, removes
  or changes a version row.
\<close>

type_synonym store = "string \<times> string \<Rightarrow> versionData option"

fun applyEvent :: "event \<Rightarrow> store \<Rightarrow> store" where
  "applyEvent (UpdateOrCreateVersion v None) s = s((app_id v, name v) \<mapsto> v)"
| "applyEvent _ s = s"

definition replay :: "event list \<Rightarrow> store \<Rightarrow> store" where
  "replay t s = fold applyEvent t s"

text \<open>
  Which events leave the machine.  \<^verbatim>\<open>checkLatest\<close> is imported from
  \<^verbatim>\<open>../api/update\<close>, which is not among the source files: it is awaited first
  thing in \<^verbatim>\<open>uploadBundle\<close> (and in \<^verbatim>\<open>login\<close>), and asks the package
  registry for the latest release of the client.
\<close>

fun networkCall :: "event \<Rightarrow> bool" where
  "networkCall CheckLatest = True"
| "networkCall VerifyUser = True"
| "networkCall CheckPlanValid = True"
| "networkCall CheckAppExistsAndHasPermissionErr = True"
| "networkCall (Rpc f) = True"
| "networkCall (SelectChannel c a) = True"
| "networkCall (SnagPublish e) = True"
| "networkCall (UpdateOrCreateVersion v e) = True"
| "networkCall (UploadUrl a f) = True"
| "networkCall (AxiosPut u d c) = True"
| "networkCall (UpdateOrCreateChannel c a u v) = True"
| "networkCall _ = False"

subsection \<open>Parts of a run\<close>

text \<open>
  Names for what the theorems speak about: the events of lines 71-110 when every gate is
  passed, the events that transfer the artifact or write a version row, the native-code
  check as \<^verbatim>\<open>uploadBundle\<close> calls it, and what a run does once the artifact is
  built.
\<close>

definition accessEvents :: "event list" where
  "accessEvents = [VerifyUser, CheckPlanValid, CheckAppExistsAndHasPermissionErr,
      Rpc ''exist_app_versions'', Rpc ''is_trial'', Rpc ''exist_app'', Rpc ''exist_app_versions'']"

fun registerEvent :: "event \<Rightarrow> bool" where
  "registerEvent (UpdateOrCreateVersion v e) = True"
| "registerEvent (UploadUrl a f) = True"
| "registerEvent (AxiosPut u d c) = True"
| "registerEvent _ = False"

definition afterBuild :: "lib \<Rightarrow> world \<Rightarrow> string option \<Rightarrow> Options \<Rightarrow> bool \<Rightarrow> string \<Rightarrow> event list" where
  "afterBuild L W appid options se u =
     (case snd (buildArtifact L W options (str (pathOf W options))) of
        Inl c \<Rightarrow> []
      | Inr b \<Rightarrow>
         fst (registerVersion W options u (bundleOf W options) (str (appidOf W appid))
                (fst b) (fst (snd b)) (map hash (nativeCodeLocal W)) (snd (snd b))) @
         (case snd (registerVersion W options u (bundleOf W options) (str (appidOf W appid))
                      (fst b) (fst (snd b)) (map hash (nativeCodeLocal W)) (snd (snd b))) of
            Inl c \<Rightarrow> []
          | Inr x \<Rightarrow> fst (bindChannel W (channelOf options) (str (appidOf W appid)) u se)))"

definition endAfterBuild :: "lib \<Rightarrow> world \<Rightarrow> string option \<Rightarrow> Options \<Rightarrow> bool \<Rightarrow> string \<Rightarrow> cause + finished" where
  "endAfterBuild L W appid options se u =
     (case snd (buildArtifact L W options (str (pathOf W options))) of
        Inl c \<Rightarrow> Inl c
      | Inr b \<Rightarrow>
         (case snd (registerVersion W options u (bundleOf W options) (str (appidOf W appid))
                      (fst b) (fst (snd b)) (map hash (nativeCodeLocal W)) (snd (snd b))) of
            Inl c \<Rightarrow> Inl c
          | Inr x \<Rightarrow> snd (bindChannel W (channelOf options) (str (appidOf W appid)) u se)))"

abbreviation nativeRun :: "lib \<Rightarrow> world \<Rightarrow> string option \<Rightarrow> Options \<Rightarrow> (bool \<times> string list) run" where
  "nativeRun L W appid options \<equiv>
     checkNativeCode L (nativeCodeLocal W) (channelAnswer W) (channelOf options)
       (str (appidOf W appid)) (bundleOf W options)"

subsection \<open>The reserved-safe set, in the specification's words\<close>

text \<open>
  The specification lists the characters that an object key may keep:
  \<open>A-Z\<close>, \<open>a-z\<close>, \<open>0-9\<close> and \<open>- _ . ! * ' ( )\<close>.
\<close>

definition reservedSafe :: "char set" where
  "reservedSafe =
     set (''ABCDEFGHIJKLMNOPQRSTUVWXYZ'' @ ''abcdefghijklmnopqrstuvwxyz'' @ ''0123456789'' @
          [CHR ''-'', CHR ''_'', CHR ''.'', CHR ''!'', CHR ''*'', CHR 0x27, CHR ''('', CHR '')''])"

subsection \<open>A concrete library for the examples\<close>

text \<open>
  The examples below need some instance of the imported helpers.  \<open>exampleParse\<close> reads
  \<open>MAJOR.MINOR.PATCH\<close> with decimal components, followed by nothing or by a suffix
  that starts with \<open>-\<close> or \<open>+\<close>, and answers the major component; the checksum and
  the encryption are stand-ins that keep their argument visible.  No theorem about the
  pipeline depends on them: every theorem is stated for an arbitrary library \<open>L\<close>.
\<close>

definition isDigit :: "char \<Rightarrow> bool" where
  "isDigit c = (48 \<le> (of_char c :: nat) \<and> (of_char c :: nat) \<le> 57)"

definition digitsValue :: "string \<Rightarrow> nat" where
  "digitsValue ds = foldl (\<lambda>n c. 10 * n + (of_char c - 48)) 0 ds"

definition numeric :: "string \<Rightarrow> (nat \<times> string) option" where
  "numeric s =
     (let ds = takeWhile isDigit s in
      if ds = [] then None else Some (digitsValue ds, dropWhile isDigit s))"

fun dotted :: "string \<Rightarrow> string option" where
  "dotted (c # cs) = (if c = CHR ''.'' then Some cs else None)"
| "dotted [] = None"

definition exampleParse :: "string \<Rightarrow> nat option" where
  "exampleParse s =
     (case numeric s of None \<Rightarrow> None | Some (major, r1) \<Rightarrow>
      (case dotted r1 of None \<Rightarrow> None | Some r2 \<Rightarrow>
       (case numeric r2 of None \<Rightarrow> None | Some (minor, r3) \<Rightarrow>
        (case dotted r3 of None \<Rightarrow> None | Some r4 \<Rightarrow>
         (case numeric r4 of None \<Rightarrow> None | Some (patch, r5) \<Rightarrow>
          if r5 = [] \<or> hd r5 = CHR ''-'' \<or> hd r5 = CHR ''+'' then Some major else None)))))"

definition hexDigit :: "nat \<Rightarrow> char" where
  "hexDigit n = ''0123456789abcdef'' ! n"

definition exampleChecksum :: "bytes \<Rightarrow> string" where
  "exampleChecksum bs =
     ''crc-of-'' @ concat (map (\<lambda>b. [hexDigit (unat b div 16), hexDigit (unat b mod 16)]) bs)"

definition exampleEncrypt :: "bytes \<Rightarrow> string \<Rightarrow> string \<times> bytes" where
  "exampleEncrypt bs k = (''iv:'' @ take 4 k, rev bs @ [0x2a])"

definition exampleLib :: lib where
  "exampleLib =
     \<lparr> regexSemver = (\<lambda>s. exampleParse s \<noteq> None),
       semverMajor = exampleParse,
       getChecksum = exampleChecksum,
       encryptSource = exampleEncrypt,
       baseKeyPub = ''.capgo_key.pub'',
       defaulPublicKey = ''DEFAULT PUBLIC KEY'' \<rparr>"

definition exampleNative :: "NativeFile list" where
  "exampleNative =
     [\<lparr>path = ''ios/App/AppDelegate.swift'', hash = ''A''\<rparr>,
      \<lparr>path = ''android/app/Main.java'', hash = ''C''\<rparr>]"

definition exampleChannel :: "channelVersion response" where
  "exampleChannel =
     \<lparr> data = Some \<lparr>version_name = ''1.4.0'', version_native_files_sha256 = Some [''A'', ''B'']\<rparr>,
       error = None \<rparr>"

text \<open>
  A project with the build in \<open>dist\<close> and a public key in \<open>key.pub\<close>, an account
  that may upload, a channel name that is not bound yet, and a backend that accepts every
  call.  The variants change one answer each.
\<close>

definition exampleWorld :: world where
  "exampleWorld =
     \<lparr> savedKey = None, configAppId = None, configVersion = None, configWebDir = Some ''dist'',
       uuid = ''3f2a9c1e'',
       fs = (\<lambda>p. if p = ''dist'' then Some Directory
                 else if p = ''key.pub'' then Some (File ''PUBLIC KEY'') else None),
       isCI = False, confirmed = Yes,
       zipFolder = (\<lambda>p. [1, 2, 3]),
       nativeCodeLocal = exampleNative,
       verifiedUser = Some ''user-1'', planValid = True, appPermitted = True,
       versionExist = \<lparr>data = Some False, error = None\<rparr>,
       app = \<lparr>data = Some True, error = None\<rparr>,
       appVersion = \<lparr>data = Some False, error = None\<rparr>,
       channelAnswer = \<lparr>data = None, error = Some ''no rows''\<rparr>,
       dbError = None, url = Some ''https://storage.example/put'', putOk = True,
       dbError2 = None, versionId = Some 7, dbError3 = None \<rparr>"

definition boundWorld :: world where
  "boundWorld = exampleWorld\<lparr>channelAnswer := exampleChannel\<rparr>"

definition existingWorld :: world where
  "existingWorld = boundWorld\<lparr>versionExist := \<lparr>data = Some True, error = None\<rparr>\<rparr>"

definition noUrlWorld :: world where
  "noUrlWorld = exampleWorld\<lparr>url := None\<rparr>"

definition exampleOptions :: Options where
  "exampleOptions =
     \<lparr> opt_apikey = Some ''secret'', opt_bundle = Some ''1.5.0'', opt_path = None,
       opt_channel = Some ''production'', opt_displayIvSession = False,
       opt_external = None, opt_key = None \<rparr>"

definition encryptOptions :: Options where
  "encryptOptions = exampleOptions\<lparr>opt_key := Some (KeyPath ''key.pub'')\<rparr>"

definition missingKeyOptions :: Options where
  "missingKeyOptions = exampleOptions\<lparr>opt_key := Some (KeyPath ''missing.pub'')\<rparr>"

definition invalidOptions :: Options where
  "invalidOptions = exampleOptions\<lparr>opt_bundle := Some ''latest''\<rparr>"

definition externalOptions :: Options where
  "externalOptions = exampleOptions\<lparr>opt_external := Some ''https://cdn.example/1.5.0.zip''\<rparr>"

definition exampleVersion :: versionData where
  "exampleVersion =
     \<lparr> bucket_id = Some ''1.5.0.zip'', user_id = ''user-1'', name = ''1.5.0'',
       app_id = ''com.test.app'', session_key = None, external_url = None,
       storage_provider = R2Direct, checksum = ''crc-of-010203'',
       native_files_sha256 = [''A'', ''C''] \<rparr>"

text \<open>The events of every example run that passes all the gates of lines 36-110.\<close>

definition gateEvents :: "event list" where
  "gateEvents = [CheckLatest, GetConfig, VerifyUser, CheckPlanValid,
     CheckAppExistsAndHasPermissionErr, Rpc ''exist_app_versions'', Rpc ''is_trial'',
     Rpc ''exist_app'', Rpc ''exist_app_versions'']"

section \<open>Theorems\<close>

subsection \<open>The example library\<close>

lemma exampleParse_simps:
  "exampleParse ''1.4.0'' = Some 1"
  "exampleParse ''1.5.0'' = Some 1"
  "exampleParse ''2.0.0'' = Some 2"
  "exampleParse ''1.0.0'' = Some 1"
  "exampleParse ''latest'' = None"
  by (simp_all add: exampleParse_def numeric_def isDigit_def digitsValue_def)

lemma exampleChecksum_simps:
  "exampleChecksum [1, 2, 3] = ''crc-of-010203''"
  "exampleChecksum [3, 2, 1, 42] = ''crc-of-0302012a''"
  by (simp_all add: exampleChecksum_def hexDigit_def)

lemma exampleEncrypt_simps:
  "exampleEncrypt [1, 2, 3] ''PUBLIC KEY'' = (''iv:PUBL'', [3, 2, 1, 42])"
  by (simp add: exampleEncrypt_def)

subsection \<open>Runs and their traces\<close>

lemma nativeLoop_snd:
  "snd (nativeLoop remote ns rv) \<longleftrightarrow> rv \<and> (\<forall>f \<in> set ns. hash f \<in> set remote)"
  by (induction ns arbitrary: rv) (auto simp: find_None_iff)

lemma nativeLoop_fst:
  "fst (nativeLoop remote ns rv) =
     map (\<lambda>f. LogError (changedMsg (path f))) (filter (\<lambda>f. hash f \<notin> set remote) ns)"
  by (induction ns arbitrary: rv) (auto simp: find_None_iff)

lemma fst_after [simp]: "fst (after e m) = e # fst m"
  and snd_after [simp]: "snd (after e m) = snd m"
  and fst_ret [simp]: "fst (ret x) = []"
  and snd_ret [simp]: "snd (ret x) = Inr x"
  and fst_abort [simp]: "fst (abort c) = []"
  and snd_abort [simp]: "snd (abort c) = Inl c"
  by (simp_all add: after_def ret_def abort_def)

lemma fst_bind_run:
  "fst (bind_run m f) = fst m @ (case snd m of Inl c \<Rightarrow> [] | Inr x \<Rightarrow> fst (f x))"
  by (simp add: bind_run_def split: sum.splits)

lemma snd_bind_run:
  "snd (bind_run m f) = (case snd m of Inl c \<Rightarrow> Inl c | Inr x \<Rightarrow> snd (f x))"
  by (simp add: bind_run_def split: sum.splits)

lemma in_trace_bind:
  "e \<in> set (fst (bind_run m f)) \<longleftrightarrow>
     e \<in> set (fst m) \<or> (\<exists>x. snd m = Inr x \<and> e \<in> set (fst (f x)))"
  by (auto simp: fst_bind_run split: sum.splits)

lemma validateArgs_trace: "fst (validateArgs L W appid options) = [CheckLatest, GetConfig]"
  by (simp add: validateArgs_def Let_def)

lemma validateArgs_Inr:
  "snd (validateArgs L W appid options) = Inr (k, a, p) \<Longrightarrow>
     regexSemver L (bundleOf W options) \<and> k = str (apikeyOf W options)
     \<and> a = str (appidOf W appid) \<and> p = str (pathOf W options)"
  by (simp add: validateArgs_def Let_def split: if_splits)

lemma checkAccess_trace: "set (fst (checkAccess W)) \<subseteq> set accessEvents"
  by (auto simp: checkAccess_def accessEvents_def split: option.splits)

lemma checkAccess_Inr:
  "snd (checkAccess W) = Inr u \<Longrightarrow> fst (checkAccess W) = accessEvents \<and> verifiedUser W = Some u
     \<and> data (versionExist W) \<noteq> Some True"
  by (auto simp: checkAccess_def accessEvents_def split: option.splits if_splits)

lemma checkNativeCode_trace:
  "\<exists>rest. fst (checkNativeCode L ns ans c a b) = FindAllNativeCode # SelectChannel c a # rest
     \<and> (\<forall>e \<in> set rest. (\<exists>m. e = LogWarn m) \<or> (\<exists>m. e = LogError m))"
  by (auto simp: checkNativeCode_def Let_def nativeLoop_fst split: option.splits)

lemma encrypt_trace:
  "e \<in> set (fst (encrypt L W options z)) \<Longrightarrow>
     e = Confirm \<or> (\<exists>m. e = SnagPublish m) \<or> (\<exists>p. e = ReadFileSync p) \<or> (\<exists>d k. e = EncryptSource d k)"
  by (auto simp: encrypt_def Let_def in_trace_bind split: if_splits option.splits node.splits)

lemma encrypt_Inr:
  "snd (encrypt L W options z) = Inr (sk, d) \<Longrightarrow>
     \<exists>keyFile. fs W (publicKeyOf L (keyOf options)) = Some (File keyFile)
       \<and> sk = Some (fst (encryptSource L z keyFile)) \<and> d = snd (encryptSource L z keyFile)"
  by (auto simp: encrypt_def Let_def snd_bind_run split: if_splits option.splits node.splits sum.splits)

lemma buildArtifact_trace:
  "e \<in> set (fst (buildArtifact L W options p)) \<Longrightarrow>
     (\<exists>q. e = ZipFolder q) \<or> (\<exists>d. e = GetChecksum d) \<or> e = Confirm \<or> (\<exists>m. e = SnagPublish m)
     \<or> (\<exists>q. e = ReadFileSync q) \<or> (\<exists>d k. e = EncryptSource d k)"
  by (auto simp: buildArtifact_def Let_def in_trace_bind split: if_splits prod.splits dest: encrypt_trace)

lemma buildArtifact_local:
  assumes "\<not> truthy (opt_external options)"
    and "snd (buildArtifact L W options p) = Inr (sk, c, z)"
  shows "c = getChecksum L (zipFolder W p) \<and>
         (if keyTruthy (keyOf options) \<or> existsSync W (baseKeyPub L)
          then \<exists>keyFile. fs W (publicKeyOf L (keyOf options)) = Some (File keyFile)
                 \<and> sk = Some (fst (encryptSource L (zipFolder W p) keyFile))
                 \<and> z = Some (snd (encryptSource L (zipFolder W p) keyFile))
          else sk = None \<and> z = Some (zipFolder W p))"
  using assms
  by (auto simp: buildArtifact_def Let_def snd_bind_run split: if_splits prod.splits sum.splits dest: encrypt_Inr)

lemma buildArtifact_external:
  assumes "truthy (opt_external options)"
  shows "set (fst (buildArtifact L W options p)) \<subseteq> {SnagPublish ''App external''}"
    and "snd (buildArtifact L W options p) = Inr r \<Longrightarrow> r = (None, [], None)"
  using assms
  by (auto simp: buildArtifact_def Let_def split: if_splits)

lemma registerVersion_trace:
  "e \<in> set (fst (registerVersion W options u b a sk c hs z)) \<Longrightarrow>
     e = UpdateOrCreateVersion (newVersion options u b a sk c hs) (dbError W)
     \<or> (\<not> truthy (opt_external options) \<and> dbError W = None \<and>
         (e = UploadUrl a (fileName b)
          \<or> (\<exists>d. z = Some d \<and> e = AxiosPut (str (url W)) d c)
          \<or> e = UpdateOrCreateVersion ((newVersion options u b a sk c hs)\<lparr>storage_provider := R2\<rparr>) (dbError2 W)))"
  by (auto simp: registerVersion_def transfer_def Let_def split: if_splits option.splits)

lemma bindChannel_trace:
  "e \<in> set (fst (bindChannel W c a u se)) \<Longrightarrow>
     (\<exists>f. e = Rpc f) \<or> (\<exists>v. e = UpdateOrCreateChannel c a u v) \<or> (\<exists>m. e = SnagPublish m)"
  by (auto simp: bindChannel_def split: if_splits option.splits)

lemma newVersion_checksum [simp]: "checksum (newVersion options u b a sk c hs) = c"
  by (simp add: newVersion_def Let_def)


lemma checkNativeCode_hashes:
  "snd (checkNativeCode L ns ans c a b) = Inr (safe, hs) \<Longrightarrow> hs = map hash ns"
  by (auto simp: checkNativeCode_def Let_def split: option.splits if_splits)

lemma uploadBundle_event:
  assumes "e \<in> set (fst (uploadBundle L W appid options se))"
  shows "e \<in> {CheckLatest, GetConfig} \<or> e \<in> set accessEvents
    \<or> e \<in> set (fst (checkNativeCode L (nativeCodeLocal W) (channelAnswer W) (channelOf options)
                        (str (appidOf W appid)) (bundleOf W options)))
    \<or> e \<in> set (fst (buildArtifact L W options (str (pathOf W options))))
    \<or> (\<exists>u sk c z. verifiedUser W = Some u
          \<and> snd (buildArtifact L W options (str (pathOf W options))) = Inr (sk, c, z)
          \<and> (e \<in> set (fst (registerVersion W options u (bundleOf W options) (str (appidOf W appid))
                            sk c (map hash (nativeCodeLocal W)) z))
             \<or> e \<in> set (fst (bindChannel W (channelOf options) (str (appidOf W appid)) u se))))"
  using assms checkAccess_trace [of W]
  by (auto simp: uploadBundle_def in_trace_bind validateArgs_trace Let_def
        split: prod.splits if_splits
        dest!: validateArgs_Inr checkAccess_Inr checkNativeCode_hashes)


lemma checkNativeCode_events:
  "e \<in> set (fst (checkNativeCode L ns ans c a b)) \<Longrightarrow>
     e = FindAllNativeCode \<or> e = SelectChannel c a \<or> (\<exists>m. e = LogWarn m) \<or> (\<exists>m. e = LogError m)"
  using checkNativeCode_trace [of L ns ans c a b] by auto

lemma uploadBundle_registerEvent:
  assumes "e \<in> set (fst (uploadBundle L W appid options se))" and "registerEvent e"
  obtains u sk c z where "verifiedUser W = Some u"
    and "snd (buildArtifact L W options (str (pathOf W options))) = Inr (sk, c, z)"
    and "e \<in> set (fst (registerVersion W options u (bundleOf W options) (str (appidOf W appid))
                            sk c (map hash (nativeCodeLocal W)) z))"
  using uploadBundle_event [OF assms(1)] assms(2)
  by (auto simp: accessEvents_def
        dest!: checkNativeCode_events buildArtifact_trace bindChannel_trace)

lemma bind_run_cong:
  "(\<And>x. snd m = Inr x \<Longrightarrow> f x = g x) \<Longrightarrow> bind_run m f = bind_run m g"
  by (simp add: bind_run_def split: sum.splits)

lemma uploadBundle_unfold:
  "uploadBundle L W appid options se =
     bind_run (validateArgs L W appid options) (\<lambda>r.
     bind_run (checkAccess W) (\<lambda>u.
     bind_run (checkNativeCode L (nativeCodeLocal W) (channelAnswer W) (channelOf options)
                 (str (appidOf W appid)) (bundleOf W options)) (\<lambda>n.
     if \<not> fst n then abort NativeFilesChanged
     else
     bind_run (buildArtifact L W options (str (pathOf W options))) (\<lambda>b.
     bind_run (registerVersion W options u (bundleOf W options) (str (appidOf W appid))
                 (fst b) (fst (snd b)) (map hash (nativeCodeLocal W)) (snd (snd b))) (\<lambda>x.
     bindChannel W (channelOf options) (str (appidOf W appid)) u se)))))"
  unfolding uploadBundle_def Let_def
proof (rule bind_run_cong, goal_cases)
  case (1 r)
  obtain k a p where r: "r = (k, a, p)"
    by (cases r)
  with 1 validateArgs_Inr [of L W appid options k a p]
  have a: "a = str (appidOf W appid)" and p: "p = str (pathOf W options)"
    by simp_all
  show ?case
    unfolding r prod.case a p
  proof (rule bind_run_cong, rule bind_run_cong, goal_cases)
    case (1 u n)
    obtain safe hs where n: "n = (safe, hs)"
      by (cases n)
    with 1 checkNativeCode_hashes have "hs = map hash (nativeCodeLocal W)"
      by simp
    with n show ?case
      by (simp add: split_def)
  qed
qed

lemma uploadBundle_fst:
  "fst (uploadBundle L W appid options se) =
     [CheckLatest, GetConfig] @
     (case snd (validateArgs L W appid options) of
        Inl c \<Rightarrow> []
      | Inr r \<Rightarrow>
         fst (checkAccess W) @
         (case snd (checkAccess W) of
            Inl c \<Rightarrow> []
          | Inr u \<Rightarrow>
             fst (checkNativeCode L (nativeCodeLocal W) (channelAnswer W) (channelOf options)
                    (str (appidOf W appid)) (bundleOf W options)) @
             (case snd (checkNativeCode L (nativeCodeLocal W) (channelAnswer W) (channelOf options)
                    (str (appidOf W appid)) (bundleOf W options)) of
                Inl c \<Rightarrow> []
              | Inr n \<Rightarrow>
                 if \<not> fst n then []
                 else
                   fst (buildArtifact L W options (str (pathOf W options))) @
                   (case snd (buildArtifact L W options (str (pathOf W options))) of
                      Inl c \<Rightarrow> []
                    | Inr b \<Rightarrow>
                       fst (registerVersion W options u (bundleOf W options) (str (appidOf W appid))
                              (fst b) (fst (snd b)) (map hash (nativeCodeLocal W)) (snd (snd b))) @
                       (case snd (registerVersion W options u (bundleOf W options)
                                    (str (appidOf W appid)) (fst b) (fst (snd b))
                                    (map hash (nativeCodeLocal W)) (snd (snd b))) of
                          Inl c \<Rightarrow> []
                        | Inr x \<Rightarrow>
                           fst (bindChannel W (channelOf options) (str (appidOf W appid)) u se))))))"
  by (simp add: uploadBundle_unfold fst_bind_run validateArgs_trace split: sum.splits)

lemma uploadBundle_snd:
  "snd (uploadBundle L W appid options se) =
     (case snd (validateArgs L W appid options) of
        Inl c \<Rightarrow> Inl c
      | Inr r \<Rightarrow>
         (case snd (checkAccess W) of
            Inl c \<Rightarrow> Inl c
          | Inr u \<Rightarrow>
             (case snd (checkNativeCode L (nativeCodeLocal W) (channelAnswer W) (channelOf options)
                    (str (appidOf W appid)) (bundleOf W options)) of
                Inl c \<Rightarrow> Inl c
              | Inr n \<Rightarrow>
                 if \<not> fst n then Inl NativeFilesChanged
                 else
                   (case snd (buildArtifact L W options (str (pathOf W options))) of
                      Inl c \<Rightarrow> Inl c
                    | Inr b \<Rightarrow>
                       (case snd (registerVersion W options u (bundleOf W options)
                                    (str (appidOf W appid)) (fst b) (fst (snd b))
                                    (map hash (nativeCodeLocal W)) (snd (snd b))) of
                          Inl c \<Rightarrow> Inl c
                        | Inr x \<Rightarrow>
                           snd (bindChannel W (channelOf options) (str (appidOf W appid)) u se))))))"
  by (simp add: uploadBundle_unfold snd_bind_run split: sum.splits)

lemma bundleOf_nonempty: "bundleOf W options \<noteq> []"
  by (cases "opt_bundle options"; cases "configVersion W")
     (auto simp: bundleOf_def js_or_def)

lemma validateArgs_invalid:
  "\<not> regexSemver L (bundleOf W options) \<Longrightarrow>
     validateArgs L W appid options = ([CheckLatest, GetConfig], Inl InvalidBundleName)"
  by (simp add: validateArgs_def Let_def after_def abort_def)

lemma validateArgs_valid:
  assumes "regexSemver L (bundleOf W options)" and "truthy (apikeyOf W options)"
    and "truthy (appidOf W appid)" and "truthy (pathOf W options)"
    and "existsSync W (str (pathOf W options))"
  shows "snd (validateArgs L W appid options) =
           Inr (str (apikeyOf W options), str (appidOf W appid), str (pathOf W options))"
  using assms by (simp add: validateArgs_def Let_def bundleOf_nonempty)

lemma checkAccess_exists:
  assumes "data (versionExist W) = Some True"
  shows "\<exists>c. snd (checkAccess W) = Inl c"
    and "set (fst (checkAccess W)) \<subseteq>
           {VerifyUser, CheckPlanValid, CheckAppExistsAndHasPermissionErr, Rpc ''exist_app_versions''}"
    and "verifiedUser W \<noteq> None \<Longrightarrow> planValid W \<Longrightarrow> appPermitted W \<Longrightarrow>
           checkAccess W = ([VerifyUser, CheckPlanValid, CheckAppExistsAndHasPermissionErr,
                             Rpc ''exist_app_versions''], Inl BundleAlreadyExists)"
  using assms
  by (auto simp: checkAccess_def after_def abort_def split: option.splits)

lemma applyEvent_other: "\<not> registerEvent e \<Longrightarrow> applyEvent e s = s"
  by (cases e) simp_all

lemma replay_no_write: "\<forall>e \<in> set t. \<not> registerEvent e \<Longrightarrow> replay t s = s"
  by (induction t arbitrary: s) (simp_all add: replay_def applyEvent_other)

lemma replay_append: "replay (xs @ ys) s = replay ys (replay xs s)"
  by (simp add: replay_def)

lemma checkAccess_cases:
  obtains (stopped) c where "snd (checkAccess W) = Inl c"
  | (passed) u where "snd (checkAccess W) = Inr u" and "fst (checkAccess W) = accessEvents"
      and "verifiedUser W = Some u"
  using checkAccess_Inr [of W] by (cases "snd (checkAccess W)") auto

lemma nativeRun_cases:
  obtains (stopped) c where "snd (nativeRun L W appid options) = Inl c"
  | (unsafe) "snd (nativeRun L W appid options) = Inr (False, map hash (nativeCodeLocal W))"
  | (safe) "snd (nativeRun L W appid options) = Inr (True, map hash (nativeCodeLocal W))"
proof (cases "snd (nativeRun L W appid options)")
  case (Inl c)
  then show ?thesis by (rule stopped)
next
  case (Inr n)
  obtain ok hs where n: "n = (ok, hs)" by (cases n)
  with Inr checkNativeCode_hashes have "hs = map hash (nativeCodeLocal W)"
    by blast
  with Inr n show ?thesis
    by (cases ok) (auto intro: unsafe safe)
qed

lemma trace_cases:
  obtains (gates) "set (fst (uploadBundle L W appid options se))
                     \<subseteq> set ([CheckLatest, GetConfig] @ accessEvents)"
      and "\<exists>c. snd (uploadBundle L W appid options se) = Inl c"
  | (native) "fst (uploadBundle L W appid options se)
                = ([CheckLatest, GetConfig] @ accessEvents) @ fst (nativeRun L W appid options)"
      and "snd (nativeRun L W appid options) \<noteq> Inr (True, map hash (nativeCodeLocal W))"
      and "\<exists>c. snd (uploadBundle L W appid options se) = Inl c"
  | (built) u where "verifiedUser W = Some u"
      and "fst (uploadBundle L W appid options se)
             = ([CheckLatest, GetConfig] @ accessEvents @ fst (nativeRun L W appid options))
               @ fst (buildArtifact L W options (str (pathOf W options)))
               @ afterBuild L W appid options se u"
      and "snd (nativeRun L W appid options) = Inr (True, map hash (nativeCodeLocal W))"
      and "snd (uploadBundle L W appid options se) = endAfterBuild L W appid options se u"
proof (cases "snd (validateArgs L W appid options)")
  case (Inl c)
  then show ?thesis
    by (intro gates) (simp_all add: uploadBundle_fst uploadBundle_snd)
next
  case valid: (Inr r)
  show ?thesis
  proof (rule checkAccess_cases [of W], goal_cases)
    case (1 c)
    with valid checkAccess_trace [of W] show ?thesis
      by (intro gates) (auto simp: uploadBundle_fst uploadBundle_snd)
  next
    case passed: (2 u)
    show ?thesis
    proof (rule nativeRun_cases [where L = L and W = W and appid = appid and options = options], goal_cases)
      case (1 c)
      with valid passed show ?thesis
        by (intro native) (simp_all add: uploadBundle_fst uploadBundle_snd)
    next
      case 2
      with valid passed show ?thesis
        by (intro native) (simp_all add: uploadBundle_fst uploadBundle_snd)
    next
      case 3
      with valid passed show ?thesis
        by (intro built [of u])
           (simp_all add: uploadBundle_fst uploadBundle_snd afterBuild_def endAfterBuild_def)
    qed
  qed
qed

lemma nativeRun_head:
  "\<exists>rest. fst (nativeRun L W appid options) = FindAllNativeCode # rest
     \<and> FindAllNativeCode \<notin> set rest \<and> (\<forall>p. ZipFolder p \<notin> set rest)
     \<and> (\<forall>e \<in> set rest. \<not> registerEvent e)"
proof -
  from checkNativeCode_trace [of L "nativeCodeLocal W" "channelAnswer W" "channelOf options"
      "str (appidOf W appid)" "bundleOf W options"]
  obtain rest where
    t: "fst (nativeRun L W appid options)
          = FindAllNativeCode # SelectChannel (channelOf options) (str (appidOf W appid)) # rest"
    and logs: "\<And>e. e \<in> set rest \<Longrightarrow> (\<exists>m. e = LogWarn m) \<or> (\<exists>m. e = LogError m)"
    by blast
  have "FindAllNativeCode \<notin> set (SelectChannel (channelOf options) (str (appidOf W appid)) # rest)"
    using logs by fastforce
  moreover
  have "\<forall>p. ZipFolder p \<notin> set (SelectChannel (channelOf options) (str (appidOf W appid)) # rest)"
    using logs by fastforce
  moreover
  have "\<forall>e \<in> set (SelectChannel (channelOf options) (str (appidOf W appid)) # rest). \<not> registerEvent e"
    using logs by fastforce
  ultimately show ?thesis
    using t by blast
qed


lemma buildArtifact_other:
  "e \<in> set (fst (buildArtifact L W options q)) \<Longrightarrow> e \<noteq> FindAllNativeCode \<and> \<not> registerEvent e"
  by (auto dest!: buildArtifact_trace)


lemma gates_other:
  "e \<in> set ([CheckLatest, GetConfig] @ accessEvents) \<Longrightarrow>
     e \<noteq> FindAllNativeCode \<and> e \<noteq> ZipFolder p \<and> \<not> registerEvent e"
  by (auto simp: accessEvents_def)


lemma registerVersion_failed_upload:
  assumes "\<not> truthy (opt_external options)" and "dbError W = None"
    and "\<not> truthy (url W) \<or> \<not> putOk W"
  shows "registerVersion W options u b a sk c hs (Some d) =
           (UpdateOrCreateVersion (newVersion options u b a sk c hs) None
              # UploadUrl a (fileName b)
              # (if truthy (url W) then [AxiosPut (str (url W)) d c] else []),
            Inl (if truthy (url W) then TransferFailed else CannotGetUploadUrl))"
  using assms
  by (auto simp: registerVersion_def transfer_def Let_def after_def abort_def)

lemma newVersion_local:
  "\<not> truthy (opt_external options) \<Longrightarrow>
     storage_provider (newVersion options u b a sk c hs) = R2Direct
     \<and> app_id (newVersion options u b a sk c hs) = a
     \<and> name (newVersion options u b a sk c hs) = b
     \<and> bucket_id (newVersion options u b a sk c hs) = Some (fileName b)"
  by (simp add: newVersion_def Let_def)

lemma newVersion_external:
  "truthy (opt_external options) \<Longrightarrow>
     storage_provider (newVersion options u b a sk c hs) = External
     \<and> bucket_id (newVersion options u b a sk c hs) = None
     \<and> external_url (newVersion options u b a sk c hs) = opt_external options
     \<and> session_key (newVersion options u b a sk c hs) = sk"
  by (simp add: newVersion_def Let_def)

lemma inClass_reservedSafe: "inClass c \<longleftrightarrow> c \<in> reservedSafe"
proof (cases c)
  case (Char b0 b1 b2 b3 b4 b5 b6 b7)
  then show ?thesis
    by (cases b0; cases b1; cases b2; cases b3; cases b4; cases b5; cases b6; cases b7;
        simp add: inClass_def reservedSafe_def)
qed

lemma replaceAll_concat:
  "replaceAll s = concat (map (\<lambda>c. if c \<in> reservedSafe then [c] else ''__'') s)"
  by (induction s) (simp_all add: inClass_reservedSafe)

lemma underscore_reservedSafe: "CHR ''_'' \<in> reservedSafe"
  by (simp add: reservedSafe_def)

lemma replaceAll_reservedSafe: "set (replaceAll s) \<subseteq> reservedSafe"
  by (induction s) (simp_all add: inClass_reservedSafe underscore_reservedSafe)



subsection \<open>The example runs\<close>

lemmas run_defs =
  uploadBundle_def validateArgs_def checkAccess_def checkNativeCode_def buildArtifact_def
  encrypt_def registerVersion_def transfer_def newVersion_def bindChannel_def
  bind_run_def after_def ret_def abort_def
  apikeyOf_def appidOf_def bundleOf_def pathOf_def channelOf_def keyOf_def
  js_or_def str_def existsSync_def alertMb_def fileName_def safeBundle_def inClass_def Let_def

lemmas example_defs =
  exampleLib_def exampleWorld_def boundWorld_def existingWorld_def noUrlWorld_def
  exampleOptions_def encryptOptions_def missingKeyOptions_def invalidOptions_def
  externalOptions_def exampleNative_def exampleChannel_def exampleVersion_def
  exampleParse_simps exampleChecksum_simps exampleEncrypt_simps
  changedMsg_def someChangedMsg_def noChannelMsg_def


lemma run_encrypted:
  "uploadBundle exampleLib exampleWorld (Some ''com.test.app'') encryptOptions True =
     (gateEvents @
      [FindAllNativeCode, SelectChannel ''production'' ''com.test.app'', LogWarn noChannelMsg,
       ZipFolder ''dist'', GetChecksum [1, 2, 3],
       SnagPublish ''App encryption'', ReadFileSync ''key.pub'',
       EncryptSource [1, 2, 3] ''PUBLIC KEY'',
       UpdateOrCreateVersion (exampleVersion\<lparr>session_key := Some ''iv:PUBL''\<rparr>) None,
       UploadUrl ''com.test.app'' ''1.5.0.zip'',
       AxiosPut ''https://storage.example/put'' [3, 2, 1, 42] ''crc-of-010203'',
       UpdateOrCreateVersion
         (exampleVersion\<lparr>session_key := Some ''iv:PUBL'', storage_provider := R2\<rparr>) None,
       Rpc ''get_app_versions'',
       UpdateOrCreateChannel ''production'' ''com.test.app'' ''user-1'' 7,
       SnagPublish ''App Uploaded''],
      Inr ProcessExit)"
  by (simp add: run_defs example_defs gateEvents_def)

lemma run_missing_key:
  "uploadBundle exampleLib exampleWorld (Some ''com.test.app'') missingKeyOptions True =
     (gateEvents @
      [FindAllNativeCode, SelectChannel ''production'' ''com.test.app'', LogWarn noChannelMsg,
       ZipFolder ''dist'', GetChecksum [1, 2, 3], Confirm,
       SnagPublish ''App encryption'', ReadFileSync ''missing.pub''],
      Inl (ReadFileError ''missing.pub''))"
  by (simp add: run_defs example_defs gateEvents_def)

lemma run_invalid:
  "uploadBundle exampleLib exampleWorld (Some ''com.test.app'') invalidOptions True =
     ([CheckLatest, GetConfig], Inl InvalidBundleName)"
  by (simp add: run_defs example_defs)



lemma run_no_url:
  "uploadBundle exampleLib noUrlWorld (Some ''com.test.app'') exampleOptions True =
     (gateEvents @
      [FindAllNativeCode, SelectChannel ''production'' ''com.test.app'', LogWarn noChannelMsg,
       ZipFolder ''dist'', GetChecksum [1, 2, 3],
       UpdateOrCreateVersion exampleVersion None,
       UploadUrl ''com.test.app'' ''1.5.0.zip''],
      Inl CannotGetUploadUrl)"
  by (simp add: run_defs example_defs gateEvents_def)

lemma run_external:
  "uploadBundle exampleLib exampleWorld (Some ''com.test.app'') externalOptions True =
     (gateEvents @
      [FindAllNativeCode, SelectChannel ''production'' ''com.test.app'', LogWarn noChannelMsg,
       SnagPublish ''App external'',
       UpdateOrCreateVersion
         (exampleVersion\<lparr>bucket_id := None,
            external_url := Some ''https://cdn.example/1.5.0.zip'',
            storage_provider := External, checksum := []\<rparr>) None,
       Rpc ''get_app_versions'',
       UpdateOrCreateChannel ''production'' ''com.test.app'' ''user-1'' 7,
       SnagPublish ''App Uploaded''],
      Inr ProcessExit)"
  by (simp add: run_defs example_defs gateEvents_def)

subsection \<open>The claims\<close>

text \<open>
  Claim C1, as the code has it.  In every run that builds a local artifact, the checksum
  written into the version record, and sent as the \<^verbatim>\<open>x-amz-meta-crc32\<close> header
  of the transfer, is the checksum of the archive as built, before any encryption.  The
  bytes transferred are the archive itself when no encryption is applied, and the
  ciphertext of the archive under the key read from the public-key file when it is.
\<close>

theorem checksum_of_archive:
  assumes "\<not> truthy (opt_external options)"
  shows "(\<forall>v e. UpdateOrCreateVersion v e \<in> set (fst (uploadBundle L W appid options se)) \<longrightarrow>
            checksum v = getChecksum L (zipFolder W (str (pathOf W options))))
       \<and> (\<forall>u d c. AxiosPut u d c \<in> set (fst (uploadBundle L W appid options se)) \<longrightarrow>
            c = getChecksum L (zipFolder W (str (pathOf W options)))
            \<and> (if keyTruthy (keyOf options) \<or> existsSync W (baseKeyPub L)
               then \<exists>keyFile. fs W (publicKeyOf L (keyOf options)) = Some (File keyFile)
                      \<and> d = snd (encryptSource L (zipFolder W (str (pathOf W options))) keyFile)
               else d = zipFolder W (str (pathOf W options))))"
proof (intro conjI allI impI)
  fix v e
  assume "UpdateOrCreateVersion v e \<in> set (fst (uploadBundle L W appid options se))"
  then obtain u' sk c' z
    where b: "snd (buildArtifact L W options (str (pathOf W options))) = Inr (sk, c', z)"
      and r: "UpdateOrCreateVersion v e \<in> set (fst (registerVersion W options u' (bundleOf W options)
                  (str (appidOf W appid)) sk c' (map hash (nativeCodeLocal W)) z))"
    by (rule uploadBundle_registerEvent) simp_all
  from registerVersion_trace [OF r] have "checksum v = c'"
    by auto
  with buildArtifact_local [OF assms b]
  show "checksum v = getChecksum L (zipFolder W (str (pathOf W options)))"
    by simp
next
  fix u d c
  assume "AxiosPut u d c \<in> set (fst (uploadBundle L W appid options se))"
  then obtain u' sk c' z
    where b: "snd (buildArtifact L W options (str (pathOf W options))) = Inr (sk, c', z)"
      and r: "AxiosPut u d c \<in> set (fst (registerVersion W options u' (bundleOf W options)
                  (str (appidOf W appid)) sk c' (map hash (nativeCodeLocal W)) z))"
    by (rule uploadBundle_registerEvent) simp_all
  from registerVersion_trace [OF r] have z: "z = Some d" and c: "c = c'"
    by auto
  from buildArtifact_local [OF assms b] z c
  show "c = getChecksum L (zipFolder W (str (pathOf W options)))"
    and "(if keyTruthy (keyOf options) \<or> existsSync W (baseKeyPub L)
               then \<exists>keyFile. fs W (publicKeyOf L (keyOf options)) = Some (File keyFile)
                      \<and> d = snd (encryptSource L (zipFolder W (str (pathOf W options))) keyFile)
               else d = zipFolder W (str (pathOf W options)))"
    by (auto split: if_splits)
qed

theorem checksum_of_archive_witness:
  "\<not> truthy (opt_external encryptOptions)
   \<and> AxiosPut ''https://storage.example/put'' [3, 2, 1, 42] ''crc-of-010203''
       \<in> set (fst (uploadBundle exampleLib exampleWorld (Some ''com.test.app'') encryptOptions True))
   \<and> getChecksum exampleLib (zipFolder exampleWorld (str (pathOf exampleWorld encryptOptions)))
       = ''crc-of-010203''
   \<and> snd (encryptSource exampleLib
            (zipFolder exampleWorld (str (pathOf exampleWorld encryptOptions))) ''PUBLIC KEY'')
       = [3, 2, 1, 42]"
proof -
  have h: "\<not> truthy (opt_external encryptOptions)"
    by (simp add: example_defs)
  have m: "AxiosPut ''https://storage.example/put'' [3, 2, 1, 42] ''crc-of-010203''
       \<in> set (fst (uploadBundle exampleLib exampleWorld (Some ''com.test.app'') encryptOptions True))"
    by (simp add: run_encrypted)
  have k: "keyTruthy (keyOf encryptOptions)"
    and f: "fs exampleWorld (publicKeyOf exampleLib (keyOf encryptOptions)) = Some (File ''PUBLIC KEY'')"
    by (simp_all add: keyOf_def example_defs)
  from checksum_of_archive [OF h, of exampleLib exampleWorld "Some ''com.test.app''" True] m k f
  show ?thesis
    using h by auto
qed

text \<open>
  The claim as stated fails: with encryption applied, the bytes stored are the ciphertext
  \<open>[3, 2, 1, 42]\<close>, whose checksum is \<open>crc-of-0302012a\<close>, while the version record
  and the transfer carry \<open>crc-of-010203\<close>, the checksum of the archive \<open>[1, 2, 3]\<close>.
\<close>

theorem checksum_of_stored_bytes_counterexample:
  "uploadBundle exampleLib exampleWorld (Some ''com.test.app'') encryptOptions True =
     (gateEvents @
      [FindAllNativeCode, SelectChannel ''production'' ''com.test.app'', LogWarn noChannelMsg,
       ZipFolder ''dist'', GetChecksum [1, 2, 3],
       SnagPublish ''App encryption'', ReadFileSync ''key.pub'',
       EncryptSource [1, 2, 3] ''PUBLIC KEY'',
       UpdateOrCreateVersion (exampleVersion\<lparr>session_key := Some ''iv:PUBL''\<rparr>) None,
       UploadUrl ''com.test.app'' ''1.5.0.zip'',
       AxiosPut ''https://storage.example/put'' [3, 2, 1, 42] ''crc-of-010203'',
       UpdateOrCreateVersion
         (exampleVersion\<lparr>session_key := Some ''iv:PUBL'', storage_provider := R2\<rparr>) None,
       Rpc ''get_app_versions'',
       UpdateOrCreateChannel ''production'' ''com.test.app'' ''user-1'' 7,
       SnagPublish ''App Uploaded''],
      Inr ProcessExit)
   \<and> checksum (exampleVersion\<lparr>session_key := Some ''iv:PUBL''\<rparr>) = ''crc-of-010203''
   \<and> getChecksum exampleLib [3, 2, 1, 42] = ''crc-of-0302012a''
   \<and> getChecksum exampleLib [1, 2, 3] = ''crc-of-010203''"
proof (intro conjI)
  show "checksum (exampleVersion\<lparr>session_key := Some ''iv:PUBL''\<rparr>) = ''crc-of-010203''"
    and "getChecksum exampleLib [3, 2, 1, 42] = ''crc-of-0302012a''"
    and "getChecksum exampleLib [1, 2, 3] = ''crc-of-010203''"
    by (simp_all add: example_defs)
qed (rule run_encrypted)




text \<open>
  Claim C3.  The pipeline is in local mode, encryption is requested (the key option is set,
  or the conventional key file exists) and the public-key file does not exist.  Then
  building the artifact always ends in an abort, after these events: in CI execution at
  once; in interactive execution after the prompt, with ``missing public key'' when the
  user refuses, and, when the user consents, with the exception of
  \<^verbatim>\<open>readFileSync\<close> on the missing file (line 157), the default key assigned at line
  144 never being used.  In each case the run of the pipeline ends in an abort.  The
  first two are what the claim says; the third is not.
\<close>

theorem missing_public_key:
  assumes "\<not> truthy (opt_external options)"
    and "keyTruthy (keyOf options) \<or> existsSync W (baseKeyPub L)"
    and "\<not> existsSync W (publicKeyOf L (keyOf options))"
  shows "buildArtifact L W options p =
           (ZipFolder p # GetChecksum (zipFolder W p) #
              (if isCI W then []
               else Confirm #
                 (if confirmTruthy (confirmed W)
                  then [SnagPublish ''App encryption'', ReadFileSync (publicKeyOf L (keyOf options))]
                  else [])),
            Inl (if isCI W then MissingPublicKeyCI
                 else if confirmTruthy (confirmed W)
                      then ReadFileError (publicKeyOf L (keyOf options))
                      else MissingPublicKeyRefused))
       \<and> (\<exists>c. snd (uploadBundle L W appid options se) = Inl c)"
proof
  show build: "buildArtifact L W options p =
           (ZipFolder p # GetChecksum (zipFolder W p) #
              (if isCI W then []
               else Confirm #
                 (if confirmTruthy (confirmed W)
                  then [SnagPublish ''App encryption'', ReadFileSync (publicKeyOf L (keyOf options))]
                  else [])),
            Inl (if isCI W then MissingPublicKeyCI
                 else if confirmTruthy (confirmed W)
                      then ReadFileError (publicKeyOf L (keyOf options))
                      else MissingPublicKeyRefused))" for p
    using assms
    by (auto simp: buildArtifact_def encrypt_def bind_run_def after_def abort_def ret_def Let_def
          existsSync_def)
  then have "\<exists>c. snd (buildArtifact L W options (str (pathOf W options))) = Inl c"
    by simp
  then show "\<exists>c. snd (uploadBundle L W appid options se) = Inl c"
    by (auto simp: uploadBundle_snd split: sum.splits)
qed

theorem missing_public_key_witness:
  "\<not> truthy (opt_external missingKeyOptions)
   \<and> keyTruthy (keyOf missingKeyOptions)
   \<and> \<not> existsSync exampleWorld (publicKeyOf exampleLib (keyOf missingKeyOptions))
   \<and> \<not> isCI exampleWorld \<and> confirmed exampleWorld = Yes
   \<and> buildArtifact exampleLib exampleWorld missingKeyOptions ''dist'' =
        ([ZipFolder ''dist'', GetChecksum [1, 2, 3], Confirm, SnagPublish ''App encryption'',
          ReadFileSync ''missing.pub''],
         Inl (ReadFileError ''missing.pub''))
   \<and> uploadBundle exampleLib exampleWorld (Some ''com.test.app'') missingKeyOptions True =
        (gateEvents @
         [FindAllNativeCode, SelectChannel ''production'' ''com.test.app'', LogWarn noChannelMsg,
          ZipFolder ''dist'', GetChecksum [1, 2, 3], Confirm,
          SnagPublish ''App encryption'', ReadFileSync ''missing.pub''],
         Inl (ReadFileError ''missing.pub''))"
proof -
  have a: "\<not> truthy (opt_external missingKeyOptions)"
    and b: "keyTruthy (keyOf missingKeyOptions)"
    and c: "\<not> existsSync exampleWorld (publicKeyOf exampleLib (keyOf missingKeyOptions))"
    by (simp_all add: keyOf_def existsSync_def example_defs)
  from b have b': "keyTruthy (keyOf missingKeyOptions)
                    \<or> existsSync exampleWorld (baseKeyPub exampleLib)"
    by simp
  from missing_public_key [OF a b' c, of "''dist''"] a b c run_missing_key show ?thesis
    by (simp add: keyOf_def example_defs)
qed

text \<open>
  Claim C4, as the code has it.  For any bundle name that does not match semantic-version
  syntax the pipeline aborts with the ``invalid bundle name'' argument error, and the only
  calls made before it are the client's update check (\<^verbatim>\<open>checkLatest\<close>) and the
  reading of the project configuration: no call to the backend is made.
\<close>

theorem semver_gate:
  assumes "\<not> regexSemver L (bundleOf W options)"
  shows "uploadBundle L W appid options se = ([CheckLatest, GetConfig], Inl InvalidBundleName)"
  using assms
  by (simp add: uploadBundle_def validateArgs_invalid bind_run_def)

theorem semver_gate_witness:
  "\<not> regexSemver exampleLib (bundleOf exampleWorld invalidOptions)
   \<and> uploadBundle exampleLib exampleWorld (Some ''com.test.app'') invalidOptions True
       = ([CheckLatest, GetConfig], Inl InvalidBundleName)"
proof -
  have h: "\<not> regexSemver exampleLib (bundleOf exampleWorld invalidOptions)"
    by (simp add: bundleOf_def js_or_def example_defs)
  from semver_gate [OF h] h show ?thesis
    by simp
qed

text \<open>
  The claim as stated fails: the update check is awaited before the bundle name is
  validated, and it is a call over the network.
\<close>

theorem semver_before_network_counterexample:
  "\<not> regexSemver exampleLib ''latest''
   \<and> bundleOf exampleWorld invalidOptions = ''latest''
   \<and> uploadBundle exampleLib exampleWorld (Some ''com.test.app'') invalidOptions True
       = ([CheckLatest, GetConfig], Inl InvalidBundleName)
   \<and> networkCall CheckLatest"
proof (intro conjI)
  show "\<not> regexSemver exampleLib ''latest''"
    and "bundleOf exampleWorld invalidOptions = ''latest''"
    and "networkCall CheckLatest"
    by (simp_all add: bundleOf_def js_or_def example_defs)
qed (rule run_invalid)

text \<open>
  Claim C5.  When the channel query answers a channel whose version has recorded native
  hashes, and the major component of the bundle does not exceed that of the bound
  version, the check returns the local hashes and reports safe exactly when every local
  hash is among the remote ones; the error lines it prints are one line per local file
  whose hash is absent remotely, in the order of the files, each reading
  \<open>Native file\<close>, the path of that file, \<open>has changed\<close>, followed by the summary line
  when there was at least one.  Hashes that only the remote
  list has play no part.
\<close>

theorem native_check_compares:
  assumes "error answer = None" and "data answer = Some v"
    and "version_native_files_sha256 v = Some remote"
    and "semverMajor L bundle = Some target"
    and "semverMajor L (version_name v) = Some bound"
    and "\<not> target > bound"
  shows "\<exists>t safe.
           checkNativeCode L localFiles answer channel appId bundle
             = (t, Inr (safe, map hash localFiles))
         \<and> (safe \<longleftrightarrow> (\<forall>f \<in> set localFiles. hash f \<in> set remote))
         \<and> [m. LogError m \<leftarrow> t] =
             map (\<lambda>f. ''Native file '' @ path f @ '' has changed'')
                 (filter (\<lambda>f. hash f \<notin> set remote) localFiles)
             @ (if safe then []
                else [''Some native file have changed, cannot upload new version!''])"
  using assms
  by (simp add: checkNativeCode_def after_def ret_def Let_def nativeLoop_snd nativeLoop_fst
        filter_map o_def changedMsg_def someChangedMsg_def)

theorem native_check_compares_witness:
  "error exampleChannel = None
   \<and> semverMajor exampleLib ''1.5.0'' = Some 1
   \<and> semverMajor exampleLib ''1.4.0'' = Some 1
   \<and> (\<exists>t. checkNativeCode exampleLib exampleNative exampleChannel ''production''
              ''com.test.app'' ''1.5.0'' = (t, Inr (False, [''A'', ''C'']))
          \<and> [m. LogError m \<leftarrow> t] =
              [''Native file android/app/Main.java has changed'',
               ''Some native file have changed, cannot upload new version!''])"
proof -
  let ?v = "\<lparr>version_name = ''1.4.0'', version_native_files_sha256 = Some [''A'', ''B'']\<rparr>"
  have a: "error exampleChannel = None" and b: "data exampleChannel = Some ?v"
    by (simp_all add: exampleChannel_def)
  have c: "version_native_files_sha256 ?v = Some [''A'', ''B'']"
    by simp
  have d: "semverMajor exampleLib ''1.5.0'' = Some 1"
    and e: "semverMajor exampleLib (version_name ?v) = Some 1"
    by (simp_all add: exampleLib_def exampleParse_simps)
  have f: "\<not> (1::nat) > 1"
    by simp
  from native_check_compares [OF a b c d e f, of exampleNative "''production''" "''com.test.app''"]
  obtain t safe where
    run: "checkNativeCode exampleLib exampleNative exampleChannel ''production''
            ''com.test.app'' ''1.5.0'' = (t, Inr (safe, map hash exampleNative))"
    and safe: "safe \<longleftrightarrow> (\<forall>f \<in> set exampleNative. hash f \<in> set [''A'', ''B''])"
    and logs: "[m. LogError m \<leftarrow> t] =
             map (\<lambda>f. ''Native file '' @ path f @ '' has changed'')
                 (filter (\<lambda>f. hash f \<notin> set [''A'', ''B'']) exampleNative)
             @ (if safe then []
                else [''Some native file have changed, cannot upload new version!''])"
    by blast
  from safe have ns: "\<not> safe"
    by (simp add: exampleNative_def)
  from logs ns have "[m. LogError m \<leftarrow> t] =
              [''Native file android/app/Main.java has changed'',
               ''Some native file have changed, cannot upload new version!'']"
    by (simp add: exampleNative_def)
  moreover from run ns have "checkNativeCode exampleLib exampleNative exampleChannel ''production''
            ''com.test.app'' ''1.5.0'' = (t, Inr (False, [''A'', ''C'']))"
    by (simp add: exampleNative_def)
  ultimately show ?thesis
    using a d e by auto
qed

text \<open>
  Claim C6.  When the channel query answers a channel and the major component of the
  bundle exceeds that of the bound version, the check reports safe whatever the hashes
  are, and returns the local hashes.
\<close>

theorem native_check_major_bump:
  assumes "error answer = None" and "data answer = Some v"
    and "semverMajor L bundle = Some target"
    and "semverMajor L (version_name v) = Some bound"
    and "target > bound"
  shows "snd (checkNativeCode L localFiles answer channel appId bundle)
           = Inr (True, map hash localFiles)"
  using assms
  by (simp add: checkNativeCode_def after_def ret_def)

theorem native_check_major_bump_witness:
  "error exampleChannel = None
   \<and> semverMajor exampleLib ''2.0.0'' = Some 2
   \<and> semverMajor exampleLib ''1.4.0'' = Some 1
   \<and> snd (checkNativeCode exampleLib exampleNative exampleChannel ''production''
             ''com.test.app'' ''2.0.0'') = Inr (True, [''A'', ''C''])"
  using native_check_major_bump [of exampleChannel
      "\<lparr>version_name = ''1.4.0'', version_native_files_sha256 = Some [''A'', ''B'']\<rparr>"
      exampleLib "''2.0.0''" 2 1 exampleNative "''production''" "''com.test.app''"]
  by (simp add: exampleChannel_def exampleLib_def exampleNative_def exampleParse_simps)

text \<open>
  Claim C7.  For every bundle name the object key is the name with each character outside
  the reserved-safe set replaced by the two characters \<open>__\<close>, followed by \<open>.zip\<close>;
  every character of the key, the suffix included, is in the reserved-safe set.  The key is
  a function of the name alone.
\<close>

theorem object_key_safe:
  "fileName bundle =
     concat (map (\<lambda>c. if c \<in> reservedSafe then [c] else ''__'') bundle) @ ''.zip''
   \<and> set (fileName bundle) \<subseteq> reservedSafe"
proof -
  have "set ''.zip'' \<subseteq> reservedSafe"
    by (simp add: reservedSafe_def)
  then show ?thesis
    using replaceAll_reservedSafe [of "bundle"]
    by (simp add: fileName_def safeBundle_def replaceAll_concat)
qed

theorem object_key_safe_witness:
  "fileName ''1.0.0-beta/f00'' = ''1.0.0-beta__f00.zip''
   \<and> set (fileName ''1.0.0-beta/f00'') \<subseteq> reservedSafe"
  using object_key_safe [of "''1.0.0-beta/f00''"]
  by (simp add: reservedSafe_def)

text \<open>
  Claim C8.  When the backend answers that a version with this app and name exists (the
  first \<^verbatim>\<open>exist_app_versions\<close> call, line 78), the run ends in an abort, no upload
  destination is requested, no bytes are transferred and no version row is written, so
  the version rows are what they were.  When the arguments are valid and the credential,
  plan and permission checks pass, the abort is the ``already exists'' one, right after
  that call.
\<close>

theorem existing_version_rejected:
  assumes "data (versionExist W) = Some True"
  shows "(\<exists>c. snd (uploadBundle L W appid options se) = Inl c)
       \<and> (\<forall>e \<in> set (fst (uploadBundle L W appid options se)). \<not> registerEvent e)
       \<and> replay (fst (uploadBundle L W appid options se)) s = s
       \<and> (regexSemver L (bundleOf W options) \<and> truthy (apikeyOf W options)
            \<and> truthy (appidOf W appid) \<and> truthy (pathOf W options)
            \<and> existsSync W (str (pathOf W options))
            \<and> verifiedUser W \<noteq> None \<and> planValid W \<and> appPermitted W
          \<longrightarrow> uploadBundle L W appid options se =
                ([CheckLatest, GetConfig, VerifyUser, CheckPlanValid,
                  CheckAppExistsAndHasPermissionErr, Rpc ''exist_app_versions''],
                 Inl BundleAlreadyExists))"
proof -
  let ?run = "uploadBundle L W appid options se"
  from checkAccess_exists(1) [OF assms] obtain c where c: "snd (checkAccess W) = Inl c"
    by blast
  have ended: "\<exists>c. snd ?run = Inl c"
    by (simp add: uploadBundle_snd c split: sum.splits)
  have quiet: "\<forall>e \<in> set (fst ?run). \<not> registerEvent e"
    using checkAccess_exists(2) [OF assms]
    by (auto simp: uploadBundle_fst c split: sum.splits)
  have gate: "?run = ([CheckLatest, GetConfig, VerifyUser, CheckPlanValid,
                  CheckAppExistsAndHasPermissionErr, Rpc ''exist_app_versions''],
                 Inl BundleAlreadyExists)"
    if "regexSemver L (bundleOf W options)" "truthy (apikeyOf W options)"
      "truthy (appidOf W appid)" "truthy (pathOf W options)"
      "existsSync W (str (pathOf W options))"
      "verifiedUser W \<noteq> None" "planValid W" "appPermitted W"
  proof -
    from validateArgs_valid [OF that(1-5)] checkAccess_exists(3) [OF assms that(6-8)]
    have "fst ?run = [CheckLatest, GetConfig, VerifyUser, CheckPlanValid,
                  CheckAppExistsAndHasPermissionErr, Rpc ''exist_app_versions'']"
      and "snd ?run = Inl BundleAlreadyExists"
      by (simp_all add: uploadBundle_fst uploadBundle_snd)
    then show ?thesis
      by (simp add: prod_eq_iff)
  qed
  from ended quiet replay_no_write [OF quiet] gate show ?thesis
    by blast
qed

theorem existing_version_rejected_witness:
  "data (versionExist existingWorld) = Some True
   \<and> uploadBundle exampleLib existingWorld (Some ''com.test.app'') exampleOptions True =
       ([CheckLatest, GetConfig, VerifyUser, CheckPlanValid, CheckAppExistsAndHasPermissionErr,
         Rpc ''exist_app_versions''],
        Inl BundleAlreadyExists)
   \<and> replay (fst (uploadBundle exampleLib existingWorld (Some ''com.test.app'') exampleOptions True))
        Map.empty = Map.empty"
proof -
  have h: "data (versionExist existingWorld) = Some True"
    by (simp add: example_defs)
  have v: "regexSemver exampleLib (bundleOf existingWorld exampleOptions)"
    "truthy (apikeyOf existingWorld exampleOptions)"
    "truthy (appidOf existingWorld (Some ''com.test.app''))"
    "truthy (pathOf existingWorld exampleOptions)"
    "existsSync existingWorld (str (pathOf existingWorld exampleOptions))"
    "verifiedUser existingWorld \<noteq> None" "planValid existingWorld" "appPermitted existingWorld"
    by (simp_all add: bundleOf_def apikeyOf_def appidOf_def pathOf_def js_or_def str_def
          existsSync_def example_defs)
  from existing_version_rejected [OF h, of exampleLib "Some ''com.test.app''" exampleOptions True
      Map.empty] v
  have "uploadBundle exampleLib existingWorld (Some ''com.test.app'') exampleOptions True =
       ([CheckLatest, GetConfig, VerifyUser, CheckPlanValid, CheckAppExistsAndHasPermissionErr,
         Rpc ''exist_app_versions''],
        Inl BundleAlreadyExists)"
    and "replay (fst (uploadBundle exampleLib existingWorld (Some ''com.test.app'') exampleOptions True))
        Map.empty = Map.empty"
    by blast+
  with h show ?thesis
    by blast
qed

text \<open>
  Claim C9.  In local mode, when the first write of the version record has gone through
  and then no upload destination is obtained or the transfer fails, the run ends in an
  abort (``cannot get upload url'', or the exception of the transfer), and the version
  rows hold, for this app and bundle name, the record of that first write, whose storage
  provider is \<open>r2-direct\<close>: nothing after the failure removes or changes it.
\<close>

theorem failed_upload_keeps_row:
  assumes "\<not> truthy (opt_external options)"
    and "UpdateOrCreateVersion v None \<in> set (fst (uploadBundle L W appid options se))"
    and "\<not> truthy (url W) \<or> \<not> putOk W"
  shows "snd (uploadBundle L W appid options se)
           = Inl (if truthy (url W) then TransferFailed else CannotGetUploadUrl)
       \<and> replay (fst (uploadBundle L W appid options se)) s
            (str (appidOf W appid), bundleOf W options) = Some v
       \<and> storage_provider v = R2Direct
       \<and> app_id v = str (appidOf W appid) \<and> name v = bundleOf W options"
proof (rule trace_cases [of L W appid options se], goal_cases)
  case 1
  with assms(2) gates_other [of "UpdateOrCreateVersion v None"] show ?case
    by auto
next
  case 2
  obtain rest where "fst (nativeRun L W appid options) = FindAllNativeCode # rest"
    and "\<forall>e \<in> set rest. \<not> registerEvent e"
    using nativeRun_head [where L = L and W = W and appid = appid and options = options]
    by blast
  with 2(1) assms(2) gates_other [of "UpdateOrCreateVersion v None"] show ?case
    by auto
next
  case (3 u)
  let ?a = "str (appidOf W appid)" and ?b = "bundleOf W options"
  let ?pre = "([CheckLatest, GetConfig] @ accessEvents @ fst (nativeRun L W appid options))
               @ fst (buildArtifact L W options (str (pathOf W options)))"
  obtain rest where n: "fst (nativeRun L W appid options) = FindAllNativeCode # rest"
    and rest: "\<forall>e \<in> set rest. \<not> registerEvent e"
    using nativeRun_head [where L = L and W = W and appid = appid and options = options]
    by blast
  have pre: "\<forall>e \<in> set ?pre. \<not> registerEvent e"
    using n rest gates_other buildArtifact_other by fastforce
  from bspec [OF pre, of "UpdateOrCreateVersion v None"]
  have "UpdateOrCreateVersion v None \<notin> set ?pre"
    by auto
  with assms(2) have "UpdateOrCreateVersion v None \<in> set (afterBuild L W appid options se u)"
    unfolding 3(2) by simp
  then obtain sk c z where b: "snd (buildArtifact L W options (str (pathOf W options))) = Inr (sk, c, z)"
    by (cases "snd (buildArtifact L W options (str (pathOf W options)))")
       (auto simp: afterBuild_def)
  from buildArtifact_local [OF assms(1) b] obtain d where z: "z = Some d"
    by (auto split: if_splits)
  let ?reg = "registerVersion W options u ?b ?a sk c (map hash (nativeCodeLocal W)) (Some d)"
  let ?nv = "newVersion options u ?b ?a sk c (map hash (nativeCodeLocal W))"
  have ab: "afterBuild L W appid options se u =
              fst ?reg @ (case snd ?reg of Inl c \<Rightarrow> [] | Inr x \<Rightarrow>
                 fst (bindChannel W (channelOf options) ?a u se))"
    and eb: "endAfterBuild L W appid options se u =
              (case snd ?reg of Inl c \<Rightarrow> Inl c | Inr x \<Rightarrow>
                 snd (bindChannel W (channelOf options) ?a u se))"
    by (simp_all add: afterBuild_def endAfterBuild_def b z)
  have db: "dbError W = None"
  proof (rule ccontr)
    assume "dbError W \<noteq> None"
    then have "fst ?reg = [UpdateOrCreateVersion ?nv (dbError W)]" and "\<exists>c. snd ?reg = Inl c"
      by (auto simp: registerVersion_def Let_def)
    with \<open>UpdateOrCreateVersion v None \<in> set (afterBuild L W appid options se u)\<close> ab
      \<open>dbError W \<noteq> None\<close>
    show False
      by auto
  qed
  note reg = registerVersion_failed_upload [OF assms(1) db assms(3), of u ?b ?a sk c
      "map hash (nativeCodeLocal W)" d]
  from ab reg have ab': "afterBuild L W appid options se u =
      UpdateOrCreateVersion ?nv None # UploadUrl ?a (fileName ?b)
         # (if truthy (url W) then [AxiosPut (str (url W)) d c] else [])"
    by simp
  with \<open>UpdateOrCreateVersion v None \<in> set (afterBuild L W appid options se u)\<close>
  have v: "v = ?nv"
    by (auto split: if_splits)
  have "replay (fst (uploadBundle L W appid options se)) s
          = replay (afterBuild L W appid options se u) (replay ?pre s)"
    by (simp only: 3(2) replay_append append_assoc)
  also have "replay ?pre s = s"
    using pre by (rule replay_no_write)
  finally have "replay (fst (uploadBundle L W appid options se)) s
          = replay (afterBuild L W appid options se u) s" .
  moreover have "replay (afterBuild L W appid options se u) s (?a, ?b) = Some v"
    using newVersion_local [OF assms(1), of u ?b ?a sk c "map hash (nativeCodeLocal W)"]
    by (simp add: ab' v replay_def)
  ultimately have row: "replay (fst (uploadBundle L W appid options se)) s (?a, ?b) = Some v"
    by simp
  from 3(4) eb reg have "snd (uploadBundle L W appid options se)
           = Inl (if truthy (url W) then TransferFailed else CannotGetUploadUrl)"
    by simp
  with row v newVersion_local [OF assms(1), of u ?b ?a sk c "map hash (nativeCodeLocal W)"]
  show ?case
    by simp
qed

theorem failed_upload_keeps_row_witness:
  "\<not> truthy (opt_external exampleOptions)
   \<and> UpdateOrCreateVersion exampleVersion None
       \<in> set (fst (uploadBundle exampleLib noUrlWorld (Some ''com.test.app'') exampleOptions True))
   \<and> \<not> truthy (url noUrlWorld)
   \<and> snd (uploadBundle exampleLib noUrlWorld (Some ''com.test.app'') exampleOptions True)
       = Inl CannotGetUploadUrl
   \<and> replay (fst (uploadBundle exampleLib noUrlWorld (Some ''com.test.app'') exampleOptions True))
        Map.empty (''com.test.app'', ''1.5.0'') = Some exampleVersion
   \<and> storage_provider exampleVersion = R2Direct"
proof -
  have a: "\<not> truthy (opt_external exampleOptions)"
    by (simp add: example_defs)
  have b: "UpdateOrCreateVersion exampleVersion None
       \<in> set (fst (uploadBundle exampleLib noUrlWorld (Some ''com.test.app'') exampleOptions True))"
    by (simp add: run_no_url)
  have c: "\<not> truthy (url noUrlWorld)"
    by (simp add: example_defs)
  from c have c': "\<not> truthy (url noUrlWorld) \<or> \<not> putOk noUrlWorld"
    by simp
  from failed_upload_keeps_row [OF a b c', of Map.empty] a b c show ?thesis
    by (simp add: appidOf_def bundleOf_def js_or_def str_def example_defs)
qed

text \<open>
  Claim C10.  In external mode (the \<^verbatim>\<open>external\<close> option is a non-empty string)
  every version record the run writes has the empty string as checksum, no
  \<open>bucket_id\<close>, the storage provider \<open>external\<close>, the given URL and no session key;
  and the run archives no folder, computes no checksum, encrypts nothing, requests no
  upload destination and transfers no bytes.
\<close>

theorem external_mode_record:
  assumes "truthy (opt_external options)"
  shows "(\<forall>v x. UpdateOrCreateVersion v x \<in> set (fst (uploadBundle L W appid options se)) \<longrightarrow>
            checksum v = [] \<and> bucket_id v = None \<and> storage_provider v = External
            \<and> external_url v = opt_external options \<and> session_key v = None)
       \<and> (\<forall>e \<in> set (fst (uploadBundle L W appid options se)).
            (\<forall>p. e \<noteq> ZipFolder p) \<and> (\<forall>d. e \<noteq> GetChecksum d) \<and> (\<forall>d k. e \<noteq> EncryptSource d k)
            \<and> (\<forall>a f. e \<noteq> UploadUrl a f) \<and> (\<forall>u d c. e \<noteq> AxiosPut u d c))"
proof -
  let ?t = "fst (uploadBundle L W appid options se)"
  have written: "checksum v = [] \<and> bucket_id v = None \<and> storage_provider v = External
            \<and> external_url v = opt_external options \<and> session_key v = None"
    if "UpdateOrCreateVersion v x \<in> set ?t" for v x
  proof -
    from that obtain u sk c z
      where b: "snd (buildArtifact L W options (str (pathOf W options))) = Inr (sk, c, z)"
        and r: "UpdateOrCreateVersion v x \<in> set (fst (registerVersion W options u (bundleOf W options)
                  (str (appidOf W appid)) sk c (map hash (nativeCodeLocal W)) z))"
      by (rule uploadBundle_registerEvent) simp_all
    from buildArtifact_external(2) [OF assms b] have "sk = None" and "c = []"
      by simp_all
    moreover from registerVersion_trace [OF r] assms
    have "v = newVersion options u (bundleOf W options) (str (appidOf W appid)) sk c
                 (map hash (nativeCodeLocal W))"
      by auto
    ultimately show ?thesis
      using newVersion_external [OF assms] by simp
  qed
  have quiet: "(\<forall>p. e \<noteq> ZipFolder p) \<and> (\<forall>d. e \<noteq> GetChecksum d) \<and> (\<forall>d k. e \<noteq> EncryptSource d k)
            \<and> (\<forall>a f. e \<noteq> UploadUrl a f) \<and> (\<forall>u d c. e \<noteq> AxiosPut u d c)"
    if e: "e \<in> set ?t" for e
    using uploadBundle_event [OF e]
      buildArtifact_external(1) [OF assms, of L W "str (pathOf W options)"] assms
    by (auto simp: accessEvents_def
          dest!: checkNativeCode_events registerVersion_trace bindChannel_trace)
  from written quiet show ?thesis
    by blast
qed

theorem external_mode_record_witness:
  "truthy (opt_external externalOptions)
   \<and> UpdateOrCreateVersion
        (exampleVersion\<lparr>bucket_id := None,
           external_url := Some ''https://cdn.example/1.5.0.zip'',
           storage_provider := External, checksum := []\<rparr>) None
       \<in> set (fst (uploadBundle exampleLib exampleWorld (Some ''com.test.app'') externalOptions True))
   \<and> snd (uploadBundle exampleLib exampleWorld (Some ''com.test.app'') externalOptions True)
       = Inr ProcessExit
   \<and> ZipFolder ''dist''
       \<notin> set (fst (uploadBundle exampleLib exampleWorld (Some ''com.test.app'') externalOptions True))
   \<and> GetChecksum [1, 2, 3]
       \<notin> set (fst (uploadBundle exampleLib exampleWorld (Some ''com.test.app'') externalOptions True))"
proof -
  have h: "truthy (opt_external externalOptions)"
    by (simp add: example_defs)
  have m: "UpdateOrCreateVersion
        (exampleVersion\<lparr>bucket_id := None,
           external_url := Some ''https://cdn.example/1.5.0.zip'',
           storage_provider := External, checksum := []\<rparr>) None
       \<in> set (fst (uploadBundle exampleLib exampleWorld (Some ''com.test.app'') externalOptions True))"
    and e: "snd (uploadBundle exampleLib exampleWorld (Some ''com.test.app'') externalOptions True)
       = Inr ProcessExit"
    by (simp_all add: run_external)
  let ?t = "fst (uploadBundle exampleLib exampleWorld (Some ''com.test.app'') externalOptions True)"
  from external_mode_record [OF h, of exampleLib exampleWorld "Some ''com.test.app''" True]
  have q: "\<forall>e \<in> set ?t. (\<forall>p. e \<noteq> ZipFolder p) \<and> (\<forall>d. e \<noteq> GetChecksum d)"
    by simp
  from bspec [OF q, of "ZipFolder ''dist''"] have z: "ZipFolder ''dist'' \<notin> set ?t"
    by auto
  from bspec [OF q, of "GetChecksum [1, 2, 3]"] have g: "GetChecksum [1, 2, 3] \<notin> set ?t"
    by auto
  from h m e z g show ?thesis
    by (intro conjI)
qed

end
